theory Spec2Isabelle
  imports Complex_Main
begin

section \<open>Extracted data (src/shared/schema.ts, extractedDataSchema)\<close>

text \<open>
  The per-page result and the merged result have the same shape: six optional string
  fields, two lists of field names and an optional object from field name to score.
  An optional property is \<open>None\<close> when it is \<open>undefined\<close>. The \<open>confidence\<close> object
  is an association list in insertion order, which is the order \<open>Object.values\<close>
  enumerates. Scores are integers (the schema's 0-100 percentage); fractional scores
  and \<open>NaN\<close> are outside the model.
\<close>

record ExtractedData =
  cif :: "string option"
  loanNumber :: "string option"
  account :: "string option"
  fullName :: "string option"
  dpi :: "string option"
  loanAmount :: "string option"
  fieldsFound :: "string list"
  fieldsNotFound :: "string list"
  confidence :: "(string \<times> int) list option"

text \<open>The field list that both loops of \<open>processDocument\<close> iterate over.\<close>

definition FIELDS :: "string list" where
  "FIELDS = [''cif'', ''loanNumber'', ''account'', ''fullName'', ''dpi'', ''loanAmount'']"

text \<open>\<open>pageData[field]\<close> and \<open>combinedData[field] = v\<close> for the six field names.\<close>

definition getField :: "string \<Rightarrow> ExtractedData \<Rightarrow> string option" where
  "getField f d =
     (if f = ''cif'' then cif d
      else if f = ''loanNumber'' then loanNumber d
      else if f = ''account'' then account d
      else if f = ''fullName'' then fullName d
      else if f = ''dpi'' then dpi d
      else if f = ''loanAmount'' then loanAmount d
      else None)"

definition setField :: "string \<Rightarrow> string option \<Rightarrow> ExtractedData \<Rightarrow> ExtractedData" where
  "setField f v d =
     (if f = ''cif'' then d\<lparr>cif := v\<rparr>
      else if f = ''loanNumber'' then d\<lparr>loanNumber := v\<rparr>
      else if f = ''account'' then d\<lparr>account := v\<rparr>
      else if f = ''fullName'' then d\<lparr>fullName := v\<rparr>
      else if f = ''dpi'' then d\<lparr>dpi := v\<rparr>
      else if f = ''loanAmount'' then d\<lparr>loanAmount := v\<rparr>
      else d)"

text \<open>JavaScript truthiness of an optional string: \<open>undefined\<close> and \<open>""\<close> are falsy.\<close>

definition truthy :: "string option \<Rightarrow> bool" where
  "truthy v = (case v of None \<Rightarrow> False | Some s \<Rightarrow> s \<noteq> [])"

text \<open>\<open>obj?.[field] || 0\<close>: a missing object, a missing entry and a 0 entry all read 0.\<close>

definition confOr0 :: "(string \<times> int) list option \<Rightarrow> string \<Rightarrow> int" where
  "confOr0 c f =
     (case c of
        None \<Rightarrow> 0
      | Some kvs \<Rightarrow> (case map_of kvs f of None \<Rightarrow> 0 | Some v \<Rightarrow> if v = 0 then 0 else v))"

text \<open>\<open>obj[key] = v\<close>: an existing property keeps its position, a new one goes last.\<close>

fun setProp :: "string \<Rightarrow> int \<Rightarrow> (string \<times> int) list \<Rightarrow> (string \<times> int) list" where
  "setProp k v [] = [(k, v)]"
| "setProp k v ((k', v') # kvs) =
     (if k' = k then (k, v) # kvs else (k', v') # setProp k v kvs)"

section \<open>The merge of processDocument (services/fileProcessor.ts: src/unnamed/part_002)\<close>

text \<open>The accumulator before the first page (lines 83-93).\<close>

definition emptyCombined :: ExtractedData where
  "emptyCombined =
     \<lparr>cif = None, loanNumber = None, account = None, fullName = None, dpi = None,
      loanAmount = None, fieldsFound = [], fieldsNotFound = [], confidence = Some []\<rparr>"

text \<open>The body of the inner loop (lines 98-105), for one page and one field.\<close>

definition mergeField :: "ExtractedData \<Rightarrow> ExtractedData \<Rightarrow> string \<Rightarrow> ExtractedData" where
  "mergeField pageData combinedData field =
     (if truthy (getField field pageData) \<and>
         (\<not> truthy (getField field combinedData) \<or>
          confOr0 (confidence pageData) field > confOr0 (confidence combinedData) field)
      then
        (let c1 = setField field (getField field pageData) combinedData
         in case confidence c1 of
              None \<Rightarrow> c1
            | Some kvs \<Rightarrow>
                c1\<lparr>confidence := Some (setProp field (confOr0 (confidence pageData) field) kvs)\<rparr>)
      else combinedData)"

text \<open>The inner loop over the six fields, and the outer loop over the pages (lines 96-107).\<close>

definition mergePage :: "ExtractedData \<Rightarrow> ExtractedData \<Rightarrow> ExtractedData" where
  "mergePage pageData combinedData = foldl (mergeField pageData) combinedData FIELDS"

definition mergePages :: "ExtractedData \<Rightarrow> ExtractedData list \<Rightarrow> ExtractedData" where
  "mergePages combinedData allExtractedData =
     foldl (\<lambda>c pageData. mergePage pageData c) combinedData allExtractedData"

text \<open>The second loop (lines 110-116): push every field name to one of the two lists.\<close>

definition pushField :: "ExtractedData \<Rightarrow> string \<Rightarrow> ExtractedData" where
  "pushField combinedData field =
     (if truthy (getField field combinedData)
      then combinedData\<lparr>fieldsFound := fieldsFound combinedData @ [field]\<rparr>
      else combinedData\<lparr>fieldsNotFound := fieldsNotFound combinedData @ [field]\<rparr>)"

definition rebuildFound :: "ExtractedData \<Rightarrow> ExtractedData" where
  "rebuildFound combinedData = foldl pushField combinedData FIELDS"

text \<open>
  \<open>Math.round\<close> rounds to the nearest integer, halves towards plus infinity. The
  division is the exact quotient: for integer scores of the size of a percentage and at
  most six entries, the double that JavaScript computes rounds to the same integer.
\<close>

definition Math_round :: "rat \<Rightarrow> int" where
  "Math_round x = \<lfloor>x + 1 / 2\<rfloor>"

text \<open>Lines 119-122.\<close>

definition confidenceValues :: "ExtractedData \<Rightarrow> int list" where
  "confidenceValues combinedData =
     (case confidence combinedData of None \<Rightarrow> [] | Some kvs \<Rightarrow> map snd kvs)"

definition avgConfidence :: "ExtractedData \<Rightarrow> int" where
  "avgConfidence combinedData =
     (let vs = confidenceValues combinedData
      in if length vs > 0
         then Math_round (of_int (foldl (+) 0 vs) / of_int (int (length vs)))
         else 0)"

text \<open>The merged record that the success write persists (lines 83-116).\<close>

definition combineData :: "ExtractedData list \<Rightarrow> ExtractedData" where
  "combineData allExtractedData = rebuildFound (mergePages emptyCombined allExtractedData)"

section \<open>The record store (storage.ts: src/unnamed/part_003 from line 75, MemStorage)\<close>

text \<open>
  A row of the \<open>documents\<close> table. The column \<open>id\<close> is \<open>docId\<close> and the column
  \<open>confidence\<close> is \<open>docConfidence\<close> here (both names are taken); a nullable column is
  an option, \<open>None\<close> for \<open>null\<close>. Dates are milliseconds.
\<close>

record Document =
  docId :: nat
  filename :: string
  originalFilename :: string
  fileType :: string
  mimeType :: string
  fileSize :: nat
  filePath :: string
  status :: string
  uploadedAt :: nat
  processedAt :: "nat option"
  extractedData :: "ExtractedData option"
  errorMessage :: "string option"
  processingTime :: "int option"
  docConfidence :: "int option"

text \<open>\<open>InsertDocument\<close>: a row without \<open>id\<close>, \<open>uploadedAt\<close> and \<open>processedAt\<close>.\<close>

record InsertDocument =
  i_filename :: string
  i_originalFilename :: string
  i_fileType :: string
  i_mimeType :: string
  i_fileSize :: nat
  i_filePath :: string
  i_status :: string
  i_extractedData :: "ExtractedData option"
  i_errorMessage :: "string option"
  i_processingTime :: "int option"
  i_confidence :: "int option"

text \<open>
  \<open>UpdateDocument\<close>: every column but \<open>id\<close> and \<open>uploadedAt\<close>, each optional. \<open>None\<close> is
  a key the object literal does not have; \<open>Some None\<close> is the key set to \<open>null\<close>.
\<close>

record UpdateDocument =
  u_filename :: "string option"
  u_originalFilename :: "string option"
  u_fileType :: "string option"
  u_mimeType :: "string option"
  u_fileSize :: "nat option"
  u_filePath :: "string option"
  u_status :: "string option"
  u_processedAt :: "nat option option"
  u_extractedData :: "ExtractedData option option"
  u_errorMessage :: "string option option"
  u_processingTime :: "int option option"
  u_confidence :: "int option option"

definition noUpdates :: UpdateDocument where
  "noUpdates =
     \<lparr>u_filename = None, u_originalFilename = None, u_fileType = None, u_mimeType = None,
      u_fileSize = None, u_filePath = None, u_status = None, u_processedAt = None,
      u_extractedData = None, u_errorMessage = None, u_processingTime = None,
      u_confidence = None\<rparr>"

record MemStorage =
  documents :: "nat \<rightharpoonup> Document"
  currentDocumentId :: nat


definition getDocument :: "MemStorage \<Rightarrow> nat \<Rightarrow> Document option" where
  "getDocument st i = documents st i"

text \<open>\<open>createDocument\<close>; \<open>now\<close> is the value of \<open>new Date()\<close>.\<close>

definition createDocument :: "nat \<Rightarrow> InsertDocument \<Rightarrow> MemStorage \<Rightarrow> Document \<times> MemStorage" where
  "createDocument now ins st =
     (let i = currentDocumentId st;
          document =
            \<lparr>docId = i, filename = i_filename ins, originalFilename = i_originalFilename ins,
             fileType = i_fileType ins, mimeType = i_mimeType ins, fileSize = i_fileSize ins,
             filePath = i_filePath ins, status = i_status ins, uploadedAt = now,
             processedAt = None, extractedData = i_extractedData ins,
             errorMessage = i_errorMessage ins, processingTime = i_processingTime ins,
             docConfidence = i_confidence ins\<rparr>
      in (document, st\<lparr>documents := (documents st)(i \<mapsto> document), currentDocumentId := i + 1\<rparr>))"

text \<open>\<open>{...existing, ...updates}\<close>: a key of \<open>updates\<close> replaces the column.\<close>

definition orElse :: "'a option \<Rightarrow> 'a \<Rightarrow> 'a" where
  "orElse u old = (case u of None \<Rightarrow> old | Some v \<Rightarrow> v)"

definition spread :: "Document \<Rightarrow> UpdateDocument \<Rightarrow> Document" where
  "spread existing updates =
     \<lparr>docId = docId existing,
      filename = orElse (u_filename updates) (filename existing),
      originalFilename = orElse (u_originalFilename updates) (originalFilename existing),
      fileType = orElse (u_fileType updates) (fileType existing),
      mimeType = orElse (u_mimeType updates) (mimeType existing),
      fileSize = orElse (u_fileSize updates) (fileSize existing),
      filePath = orElse (u_filePath updates) (filePath existing),
      status = orElse (u_status updates) (status existing),
      uploadedAt = uploadedAt existing,
      processedAt = orElse (u_processedAt updates) (processedAt existing),
      extractedData = orElse (u_extractedData updates) (extractedData existing),
      errorMessage = orElse (u_errorMessage updates) (errorMessage existing),
      processingTime = orElse (u_processingTime updates) (processingTime existing),
      docConfidence = orElse (u_confidence updates) (docConfidence existing)\<rparr>"

text \<open>
  \<open>updateDocument\<close> (lines 136-148 of the store). The third spread comes last, so it
  also overrides a \<open>processedAt\<close> key of \<open>updates\<close>. A \<open>Date\<close> is always truthy, so
  \<open>!existing.processedAt\<close> is the test for \<open>null\<close>.
\<close>

definition updated :: "nat \<Rightarrow> Document \<Rightarrow> UpdateDocument \<Rightarrow> Document" where
  "updated now existing updates =
     (if u_status updates = Some ''processed'' \<and> processedAt existing = None
      then (spread existing updates)\<lparr>processedAt := Some now\<rparr>
      else spread existing updates)"

definition updateDocument ::
  "nat \<Rightarrow> nat \<Rightarrow> UpdateDocument \<Rightarrow> MemStorage \<Rightarrow> Document option \<times> MemStorage" where
  "updateDocument now i updates st =
     (case documents st i of
        None \<Rightarrow> (None, st)
      | Some existing \<Rightarrow>
          (Some (updated now existing updates),
           st\<lparr>documents := (documents st)(i \<mapsto> updated now existing updates)\<rparr>))"

section \<open>The pipeline (src/unnamed/part_002, processDocument)\<close>

text \<open>
  A thrown value is an \<open>Error\<close> with its message or something else;
  \<open>error instanceof Error ? error.message : fallback\<close> reads it.
\<close>

datatype thrown = ErrorObj string | OtherValue

definition messageOr :: "thrown \<Rightarrow> string \<Rightarrow> string" where
  "messageOr e fallback = (case e of ErrorObj m \<Rightarrow> m | OtherValue \<Rightarrow> fallback)"

text \<open>
  The catch block of the extraction client (src/server/routes.ts, lines 336-339): whatever
  is thrown inside its try block is rethrown as a new \<open>Error\<close>.
\<close>

definition extractionError :: "thrown \<Rightarrow> thrown" where
  "extractionError e = ErrorObj (''Failed to extract data: '' @ messageOr e ''Unknown error'')"

text \<open>
  What the outside world does with one image buffer: the re-encoding by \<open>sharp\<close> throws,
  or the extraction client throws (with the cause caught by its catch block), or the
  client returns a result.
\<close>

datatype page_io = SharpThrows thrown | ExtractThrows thrown | Extracted ExtractedData

definition processImageBuffer :: "page_io \<Rightarrow> thrown + ExtractedData" where
  "processImageBuffer io =
     (case io of
        SharpThrows e \<Rightarrow> Inl e
      | ExtractThrows e \<Rightarrow> Inl (extractionError e)
      | Extracted d \<Rightarrow> Inr d)"

text \<open>
  The environment of one run: the outcome of \<open>fs.readFile\<close> (\<open>None\<close> when it returns),
  of \<open>convert.bulk\<close> (\<open>None\<close> when it throws, else one entry per page buffer), of the
  single image, the date of the first write, the elapsed milliseconds and the date of
  the final write.
\<close>

record run_env =
  readFile_throws :: "thrown option"
  pdf_pages :: "page_io list option"
  image_page :: page_io
  startedAt :: nat
  elapsedMs :: int
  finishedAt :: nat

text \<open>The page loop (lines 61-70): a page that throws is logged and skipped.\<close>

fun processPages :: "page_io list \<Rightarrow> ExtractedData list \<Rightarrow> ExtractedData list" where
  "processPages [] allExtractedData = allExtractedData"
| "processPages (b # bs) allExtractedData =
     (case processImageBuffer b of
        Inl pageError \<Rightarrow> processPages bs allExtractedData
      | Inr d \<Rightarrow> processPages bs (allExtractedData @ [d]))"

text \<open>Lines 56-76; \<open>convertPdfToImages\<close> replaces whatever it catches by its own error.\<close>

definition extractAll :: "run_env \<Rightarrow> Document \<Rightarrow> thrown + ExtractedData list" where
  "extractAll env document =
     (if fileType document = ''pdf''
      then (case pdf_pages env of
              None \<Rightarrow> Inl (ErrorObj ''Failed to convert PDF to images'')
            | Some imageBuffers \<Rightarrow> Inr (processPages imageBuffers []))
      else (case processImageBuffer (image_page env) of
              Inl e \<Rightarrow> Inl e
            | Inr d \<Rightarrow> Inr [d]))"

definition statusUpdate :: "string \<Rightarrow> UpdateDocument" where
  "statusUpdate s = noUpdates\<lparr>u_status := Some s\<rparr>"

text \<open>The object of the success write (lines 127-133).\<close>

definition successUpdate :: "run_env \<Rightarrow> ExtractedData list \<Rightarrow> UpdateDocument" where
  "successUpdate env allExtractedData =
     noUpdates
       \<lparr>u_status := Some ''processed'',
        u_extractedData := Some (Some (combineData allExtractedData)),
        u_processingTime := Some (Some (elapsedMs env)),
        u_confidence := Some (Some (avgConfidence (combineData allExtractedData))),
        u_errorMessage := Some None\<rparr>"

text \<open>The object of the failure write (lines 141-144).\<close>

definition failureUpdate :: "thrown \<Rightarrow> UpdateDocument" where
  "failureUpdate e =
     noUpdates
       \<lparr>u_status := Some ''failed'',
        u_errorMessage := Some (Some (messageOr e ''Unknown error occurred''))\<rparr>"

text \<open>
  The try block after the first write (lines 44-133), given the record that
  \<open>getDocument\<close> returned: the error it throws or the object of its success write.
\<close>

definition tryBlock :: "run_env \<Rightarrow> Document option \<Rightarrow> thrown + UpdateDocument" where
  "tryBlock env fetched =
     (case fetched of
        None \<Rightarrow> Inl (ErrorObj ''Document not found'')
      | Some document \<Rightarrow>
          (case readFile_throws env of
             Some e \<Rightarrow> Inl e
           | None \<Rightarrow>
               (case extractAll env document of
                  Inl e \<Rightarrow> Inl e
                | Inr allExtractedData \<Rightarrow>
                    if length allExtractedData = 0
                    then Inl (ErrorObj ''No data could be extracted from any page'')
                    else Inr (successUpdate env allExtractedData))))"

text \<open>The first write (line 42) followed by the fetch (line 44).\<close>

definition beginRun :: "nat \<Rightarrow> nat \<Rightarrow> MemStorage \<Rightarrow> Document option \<times> MemStorage" where
  "beginRun now i st =
     (let st1 = snd (updateDocument now i (statusUpdate ''processing'') st)
      in (getDocument st1 i, st1))"

text \<open>The final write: the success write, or the failure write of the catch block.\<close>

definition finalUpdate :: "run_env \<Rightarrow> Document option \<Rightarrow> UpdateDocument" where
  "finalUpdate env fetched =
     (case tryBlock env fetched of Inl e \<Rightarrow> failureUpdate e | Inr u \<Rightarrow> u)"

definition finishRun :: "run_env \<Rightarrow> nat \<Rightarrow> Document option \<Rightarrow> MemStorage \<Rightarrow> MemStorage" where
  "finishRun env i fetched st =
     snd (updateDocument (finishedAt env) i (finalUpdate env fetched) st)"

text \<open>One whole run of \<open>processDocument\<close> with no other write in between.\<close>

definition processDocument :: "run_env \<Rightarrow> nat \<Rightarrow> MemStorage \<Rightarrow> MemStorage" where
  "processDocument env i st =
     (case beginRun (startedAt env) i st of (fetched, st1) \<Rightarrow> finishRun env i fetched st1)"

section \<open>The routes that write to the store (src/server/routes.ts)\<close>

text \<open>The file that multer hands to the upload route.\<close>

record upload_file =
  f_filename :: string
  f_originalname :: string
  f_mimetype :: string
  f_size :: nat
  f_path :: string

text \<open>\<open>documentData\<close> of the upload route (lines 97-109).\<close>

definition documentData :: "upload_file \<Rightarrow> InsertDocument" where
  "documentData file =
     \<lparr>i_filename = f_filename file, i_originalFilename = f_originalname file,
      i_fileType = (if take 6 (f_mimetype file) = ''image/'' then ''image'' else ''pdf''),
      i_mimeType = f_mimetype file, i_fileSize = f_size file, i_filePath = f_path file,
      i_status = ''queued'', i_extractedData = None, i_errorMessage = None,
      i_processingTime = None, i_confidence = None\<rparr>"

text \<open>The reset of both retry routes (lines 148-151 and 170-173).\<close>

definition retryUpdate :: UpdateDocument where
  "retryUpdate = noUpdates\<lparr>u_status := Some ''queued'', u_errorMessage := Some None\<rparr>"

text \<open>
  The server as a transition system. A state is the store and the runs of
  \<open>processDocument\<close> in flight: a run is spawned by a route, then does its first write
  and fetch, then does its final write; writes of other runs and routes may come in
  between. The routes never await anything but the in-memory store, so a route and the
  start of the run it spawns are not interrupted; the steps below allow more
  interleavings than that.
\<close>

datatype phase = Spawned | Running "Document option"

record server =
  storage :: MemStorage
  runs :: "(nat \<times> phase) list"


inductive step :: "server \<Rightarrow> server \<Rightarrow> bool" where
  upload:
    "createDocument now (documentData file) (storage s) = (document, st') \<Longrightarrow>
     step s \<lparr>storage = st', runs = runs s @ [(docId document, Spawned)]\<rparr>"
| retry:
    "getDocument (storage s) i = Some document \<Longrightarrow> status document = ''failed'' \<Longrightarrow>
     step s \<lparr>storage = snd (updateDocument now i retryUpdate (storage s)),
             runs = runs s @ [(i, Spawned)]\<rparr>"
| start:
    "(i, Spawned) \<in> set (runs s) \<Longrightarrow> beginRun now i (storage s) = (fetched, st') \<Longrightarrow>
     step s \<lparr>storage = st', runs = remove1 (i, Spawned) (runs s) @ [(i, Running fetched)]\<rparr>"
| finish:
    "(i, Running fetched) \<in> set (runs s) \<Longrightarrow>
     step s \<lparr>storage = finishRun env i fetched (storage s),
             runs = remove1 (i, Running fetched) (runs s)\<rparr>"


section \<open>The extraction client (services/openai.ts: src/server/routes.ts from line 240)\<close>

text \<open>
  A value that \<open>JSON.parse\<close> returns. Numbers are integers here. An object is the list of
  its properties.
\<close>

datatype json =
  JNull | JBool bool | JNum int | JStr string | JArr "json list" | JObj "(string \<times> json) list"

fun truthyJ :: "json \<Rightarrow> bool" where
  "truthyJ JNull = False"
| "truthyJ (JBool b) = b"
| "truthyJ (JNum n) = (n \<noteq> 0)"
| "truthyJ (JStr s) = (s \<noteq> [])"
| "truthyJ (JArr xs) = True"
| "truthyJ (JObj kvs) = True"

text \<open>
  \<open>result.key\<close> for a value that is not \<open>null\<close>: the property of an object, \<open>undefined\<close>
  on an array, a string, a number or a boolean (none of the nine keys read here is a
  property of their prototypes).
\<close>

fun getProp :: "json \<Rightarrow> string \<Rightarrow> json option" where
  "getProp (JObj kvs) k = map_of kvs k"
| "getProp j k = None"

text \<open>\<open>v || undefined\<close>, \<open>Array.isArray(v) ? v : []\<close> and \<open>v || {}\<close>.\<close>

definition orUndefined :: "json option \<Rightarrow> json option" where
  "orUndefined v = (case v of None \<Rightarrow> None | Some j \<Rightarrow> if truthyJ j then Some j else None)"

definition arrayOrEmpty :: "json option \<Rightarrow> json list" where
  "arrayOrEmpty v = (case v of Some (JArr xs) \<Rightarrow> xs | _ \<Rightarrow> [])"

definition orEmptyObject :: "json option \<Rightarrow> json" where
  "orEmptyObject v = (case v of None \<Rightarrow> JObj [] | Some j \<Rightarrow> if truthyJ j then j else JObj [])"

text \<open>
  The object the client builds (lines 323-333). Its TypeScript type is \<open>ExtractedFields\<close>,
  but nothing checks the parsed values, so the fields hold whatever was parsed.
\<close>

record ExtractedFields =
  x_cif :: "json option"
  x_loanNumber :: "json option"
  x_account :: "json option"
  x_fullName :: "json option"
  x_dpi :: "json option"
  x_loanAmount :: "json option"
  x_fieldsFound :: "json list"
  x_fieldsNotFound :: "json list"
  x_confidence :: json

text \<open>
  What the call to the model gives: it throws (as does reading the first choice of a
  response that has none), or it returns a message whose content is empty (\<open>null\<close> or
  \<open>""\<close>) or a text, on which \<open>JSON.parse\<close> throws or returns a value.
\<close>

datatype content = NoContent | Text "thrown + json"

datatype api_result = CallThrows thrown | CallReturns content

definition parsed :: "content \<Rightarrow> thrown + json" where
  "parsed c = (case c of NoContent \<Rightarrow> Inr (JObj []) | Text p \<Rightarrow> p)"

text \<open>
  Reading \<open>result.cif\<close>, the first property read, throws a \<open>TypeError\<close> when \<open>result\<close> is
  \<open>null\<close>; the text is the one Node gives.
\<close>

definition nullTypeError :: thrown where
  "nullTypeError = ErrorObj ''Cannot read properties of null (reading 'cif')''"

definition cleaned :: "json \<Rightarrow> ExtractedFields" where
  "cleaned result =
     \<lparr>x_cif = orUndefined (getProp result ''cif''),
      x_loanNumber = orUndefined (getProp result ''loanNumber''),
      x_account = orUndefined (getProp result ''account''),
      x_fullName = orUndefined (getProp result ''fullName''),
      x_dpi = orUndefined (getProp result ''dpi''),
      x_loanAmount = orUndefined (getProp result ''loanAmount''),
      x_fieldsFound = arrayOrEmpty (getProp result ''fieldsFound''),
      x_fieldsNotFound = arrayOrEmpty (getProp result ''fieldsNotFound''),
      x_confidence = orEmptyObject (getProp result ''confidence'')\<rparr>"

definition extractDataFromImage :: "api_result \<Rightarrow> thrown + ExtractedFields" where
  "extractDataFromImage r =
     (case r of
        CallThrows e \<Rightarrow> Inl (extractionError e)
      | CallReturns c \<Rightarrow>
          (case parsed c of
             Inl e \<Rightarrow> Inl (extractionError e)
           | Inr result \<Rightarrow>
               (case result of
                  JNull \<Rightarrow> Inl (extractionError nullTypeError)
                | _ \<Rightarrow> Inr (cleaned result))))"

text \<open>
  Well-formed with respect to the interface \<open>ExtractedFields\<close>: a field is absent or a
  non-empty string, both lists hold strings, and \<open>confidence\<close> is an object of numbers.
\<close>

definition fieldOk :: "json option \<Rightarrow> bool" where
  "fieldOk v = (case v of None \<Rightarrow> True | Some (JStr s) \<Rightarrow> s \<noteq> [] | _ \<Rightarrow> False)"

definition isStr :: "json \<Rightarrow> bool" where
  "isStr j = (case j of JStr s \<Rightarrow> True | _ \<Rightarrow> False)"

definition isNum :: "json \<Rightarrow> bool" where
  "isNum j = (case j of JNum n \<Rightarrow> True | _ \<Rightarrow> False)"

definition confidenceOk :: "json \<Rightarrow> bool" where
  "confidenceOk j = (case j of JObj kvs \<Rightarrow> list_all (\<lambda>kv. isNum (snd kv)) kvs | _ \<Rightarrow> False)"

definition wellFormed :: "ExtractedFields \<Rightarrow> bool" where
  "wellFormed x =
     (fieldOk (x_cif x) \<and> fieldOk (x_loanNumber x) \<and> fieldOk (x_account x) \<and>
      fieldOk (x_fullName x) \<and> fieldOk (x_dpi x) \<and> fieldOk (x_loanAmount x) \<and>
      list_all isStr (x_fieldsFound x) \<and> list_all isStr (x_fieldsNotFound x) \<and>
      confidenceOk (x_confidence x))"

section \<open>Auxiliary notions for the verification\<close>

text \<open>
  The condition of line 98-100, the entry of the \<open>confidence\<close> object for a key, and the
  invariant of the accumulator: its \<open>confidence\<close> object exists and has no key twice, it
  has an entry exactly for the fields that hold a value, and no field holds \<open>""\<close>.
\<close>

definition adopts :: "ExtractedData \<Rightarrow> ExtractedData \<Rightarrow> string \<Rightarrow> bool" where
  "adopts pageData combinedData field =
     (truthy (getField field pageData) \<and>
      (\<not> truthy (getField field combinedData) \<or>
       confOr0 (confidence pageData) field > confOr0 (confidence combinedData) field))"

definition confidenceEntry :: "ExtractedData \<Rightarrow> string \<Rightarrow> int option" where
  "confidenceEntry c f = (case confidence c of None \<Rightarrow> None | Some kvs \<Rightarrow> map_of kvs f)"

definition hasConf :: "ExtractedData \<Rightarrow> bool" where
  "hasConf c = (confidence c \<noteq> None)"

definition keysDistinct :: "ExtractedData \<Rightarrow> bool" where
  "keysDistinct c = (case confidence c of None \<Rightarrow> False | Some kvs \<Rightarrow> distinct (map fst kvs))"

definition mergedOk :: "ExtractedData \<Rightarrow> bool" where
  "mergedOk c =
     (keysDistinct c \<and> (\<forall>f. (confidenceEntry c f \<noteq> None) = truthy (getField f c)) \<and>
      (\<forall>f. (getField f c \<noteq> None) = truthy (getField f c)))"

definition examplePage :: "string \<Rightarrow> string \<Rightarrow> int \<Rightarrow> ExtractedData" where
  "examplePage f v c = (setField f (Some v) emptyCombined)\<lparr>confidence := Some [(f, c)]\<rparr>"

text \<open>
  The average as the specification words it: the rounded mean of the scores over the keys
  of the merged \<open>confidence\<close> map, 0 when the map has no key.
\<close>

definition specAverageConfidence :: "(string \<rightharpoonup> int) \<Rightarrow> int" where
  "specAverageConfidence m =
     (if dom m = {} then 0
      else Math_round (of_int (\<Sum>k\<in>dom m. the (m k)) / of_int (int (card (dom m)))))"

text \<open>Pages for the examples: one field with a score, one field without a score.\<close>

definition noScorePage :: "string \<Rightarrow> string \<Rightarrow> ExtractedData" where
  "noScorePage f v = setField f (Some v) emptyCombined"

definition examplePages :: "ExtractedData list" where
  "examplePages = [examplePage ''dpi'' ''1234'' 85, examplePage ''cif'' ''C-9'' 90]"


text \<open>A sequence of calls of \<open>updateDocument\<close> for one id, each with its date.\<close>

fun updateMany :: "(nat \<times> UpdateDocument) list \<Rightarrow> nat \<Rightarrow> MemStorage \<Rightarrow> MemStorage" where
  "updateMany [] i st = st"
| "updateMany ((now, updates) # rest) i st = updateMany rest i (snd (updateDocument now i updates st))"

text \<open>
  The pages that normalization yields for a document: the buffers of \<open>convert.bulk\<close> for
  a PDF, the one re-encoded image otherwise (none when the re-encoding throws). A page
  fails when \<open>processImageBuffer\<close> throws on it; \<open>extractedOf\<close> keeps the results of the
  pages that do not fail, in order.
\<close>

definition normalized :: "run_env \<Rightarrow> Document \<Rightarrow> page_io list option" where
  "normalized env document =
     (if fileType document = ''pdf'' then pdf_pages env
      else (case image_page env of SharpThrows e \<Rightarrow> None | io \<Rightarrow> Some [io]))"

definition pageFails :: "page_io \<Rightarrow> bool" where
  "pageFails io = (case io of Extracted d \<Rightarrow> False | _ \<Rightarrow> True)"

definition extractedOf :: "page_io list \<Rightarrow> ExtractedData list" where
  "extractedOf ios = List.map_filter (\<lambda>io. case io of Extracted d \<Rightarrow> Some d | _ \<Rightarrow> None) ios"

text \<open>A stored document and environments of a run, for the examples.\<close>

definition exampleDocument :: Document where
  "exampleDocument =
     \<lparr>docId = 7, filename = ''17-1.pdf'', originalFilename = ''loan.pdf'', fileType = ''pdf'',
      mimeType = ''application/pdf'', fileSize = 2048, filePath = ''uploads/17-1.pdf'',
      status = ''queued'', uploadedAt = 1000, processedAt = None, extractedData = None,
      errorMessage = None, processingTime = None, docConfidence = None\<rparr>"

definition exampleStorage :: MemStorage where
  "exampleStorage = \<lparr>documents = [7 \<mapsto> exampleDocument], currentDocumentId = 8\<rparr>"

definition exampleEnv :: "page_io list \<Rightarrow> run_env" where
  "exampleEnv ios =
     \<lparr>readFile_throws = None, pdf_pages = Some ios, image_page = SharpThrows OtherValue,
      startedAt = 2000, elapsedMs = 350, finishedAt = 2350\<rparr>"

definition failingPage :: page_io where
  "failingPage = ExtractThrows (ErrorObj ''429 rate limit'')"

definition imageDocument :: Document where
  "imageDocument =
     exampleDocument\<lparr>docId := 9, fileType := ''image'', mimeType := ''image/png''\<rparr>"

definition imageStorage :: MemStorage where
  "imageStorage = \<lparr>documents = [9 \<mapsto> imageDocument], currentDocumentId = 10\<rparr>"

definition imageEnv :: run_env where
  "imageEnv = (exampleEnv [])\<lparr>image_page := failingPage\<rparr>"

definition missingFileEnv :: run_env where
  "missingFileEnv = (exampleEnv [])\<lparr>readFile_throws := Some (ErrorObj ''ENOENT: no such file'')\<rparr>"

text \<open>Updates and a dated document, for the examples.\<close>

definition datedDocument :: Document where
  "datedDocument = exampleDocument\<lparr>status := ''processed'', processedAt := Some 5000\<rparr>"

definition datedStorage :: MemStorage where
  "datedStorage = \<lparr>documents = [7 \<mapsto> datedDocument], currentDocumentId = 8\<rparr>"

definition redateUpdate :: UpdateDocument where
  "redateUpdate = noUpdates\<lparr>u_processedAt := Some (Some 7000)\<rparr>"

definition exampleSuccess :: UpdateDocument where
  "exampleSuccess = successUpdate (exampleEnv []) [examplePage ''cif'' ''C-9'' 90]"

text \<open>
  The invariant of the server: a stored document holds extracted data exactly when its
  status is \<open>processed\<close>; every run in flight is for a stored document whose status is
  \<open>queued\<close> before the run's first write and \<open>processing\<close> after it; no document has
  two runs in flight; every stored id is below the next id.
\<close>

definition phaseStatus :: "phase \<Rightarrow> string" where
  "phaseStatus ph = (case ph of Spawned \<Rightarrow> ''queued'' | Running fetched \<Rightarrow> ''processing'')"









text \<open>
  \<open>extractedData[key]\<close> for the six field names, and the payloads that keep to the
  format the prompt asks for: each field a string or falsy (\<open>null\<close>, missing), each list
  an array of strings or no array, \<open>confidence\<close> an object of numbers or falsy.
\<close>

definition xField :: "string \<Rightarrow> ExtractedFields \<Rightarrow> json option" where
  "xField k x =
     (if k = ''cif'' then x_cif x
      else if k = ''loanNumber'' then x_loanNumber x
      else if k = ''account'' then x_account x
      else if k = ''fullName'' then x_fullName x
      else if k = ''dpi'' then x_dpi x
      else if k = ''loanAmount'' then x_loanAmount x
      else None)"

definition stringOrFalsy :: "json option \<Rightarrow> bool" where
  "stringOrFalsy v = (case v of None \<Rightarrow> True | Some (JStr s) \<Rightarrow> True | Some j \<Rightarrow> \<not> truthyJ j)"

definition stringsOrNoArray :: "json option \<Rightarrow> bool" where
  "stringsOrNoArray v = (case v of Some (JArr xs) \<Rightarrow> list_all isStr xs | _ \<Rightarrow> True)"

definition numbersOrFalsy :: "json option \<Rightarrow> bool" where
  "numbersOrFalsy v =
     (case v of None \<Rightarrow> True | Some (JObj kvs) \<Rightarrow> list_all (\<lambda>kv. isNum (snd kv)) kvs
      | Some j \<Rightarrow> \<not> truthyJ j)"

definition typedPayload :: "json \<Rightarrow> bool" where
  "typedPayload result =
     (list_all (\<lambda>k. stringOrFalsy (getProp result k)) FIELDS \<and>
      stringsOrNoArray (getProp result ''fieldsFound'') \<and>
      stringsOrNoArray (getProp result ''fieldsNotFound'') \<and>
      numbersOrFalsy (getProp result ''confidence''))"

text \<open>
  Contents for the examples: a text cut off by the token limit, on which \<open>JSON.parse\<close>
  throws; an object whose \<open>cif\<close> is a number; an object in the format asked for.
\<close>

definition truncatedContent :: content where
  "truncatedContent = Text (Inl (ErrorObj ''Unexpected end of JSON input''))"

definition numberPayload :: json where
  "numberPayload = JObj [(''cif'', JNum 123), (''fieldsFound'', JArr [JStr ''cif''])]"

definition typedExample :: json where
  "typedExample =
     JObj [(''cif'', JStr ''C-9''), (''loanNumber'', JNull), (''dpi'', JStr []),
           (''fieldsFound'', JStr ''cif''), (''confidence'', JObj [(''cif'', JNum 95)])]"

section \<open>Field access and object properties\<close>

lemma getField_setField_same: "f \<in> set FIELDS \<Longrightarrow> getField f (setField f v d) = v"
  by (auto simp: FIELDS_def getField_def setField_def)

lemma getField_setField_other: "g \<noteq> f \<Longrightarrow> getField g (setField f v d) = getField g d"
  by (auto simp: getField_def setField_def)

lemma confidence_setField: "confidence (setField f v d) = confidence d"
  by (simp add: setField_def)

lemma found_setField:
  "fieldsFound (setField f v d) = fieldsFound d" "fieldsNotFound (setField f v d) = fieldsNotFound d"
  by (simp_all add: setField_def)

lemma getField_confidence_update: "getField f (d\<lparr>confidence := x\<rparr>) = getField f d"
  by (simp add: getField_def)

lemma getField_found_update:
  "getField f (d\<lparr>fieldsFound := x\<rparr>) = getField f d"
  "getField f (d\<lparr>fieldsNotFound := y\<rparr>) = getField f d"
  by (simp_all add: getField_def)

lemma getField_unknown: "f \<notin> set FIELDS \<Longrightarrow> getField f d = None"
  by (simp add: getField_def FIELDS_def)

lemma distinct_FIELDS: "distinct FIELDS"
  by (simp add: FIELDS_def)

lemma map_of_setProp: "map_of (setProp k v kvs) = (map_of kvs)(k \<mapsto> v)"
  by (induction kvs) (auto simp: fun_eq_iff)

lemma keys_setProp: "fst ` set (setProp k v kvs) = insert k (fst ` set kvs)"
proof -
  have "fst ` set (setProp k v kvs) = dom (map_of (setProp k v kvs))"
    by (simp add: dom_map_of_conv_image_fst)
  also have "\<dots> = insert k (dom (map_of kvs))"
    by (simp add: map_of_setProp)
  finally show ?thesis by (simp add: dom_map_of_conv_image_fst)
qed

lemma distinct_setProp: "distinct (map fst kvs) \<Longrightarrow> distinct (map fst (setProp k v kvs))"
  by (induction kvs) (auto simp: keys_setProp)

lemma setProp_same: "map_of kvs k = Some v \<Longrightarrow> setProp k v kvs = kvs"
  by (induction kvs) (auto split: if_splits)

section \<open>One page, one field\<close>

lemma confOr0_entry: "confOr0 (confidence c) f = (case confidenceEntry c f of None \<Rightarrow> 0 | Some v \<Rightarrow> v)"
  by (simp add: confOr0_def confidenceEntry_def split: option.splits)

lemma mergeField_no: "\<not> adopts p c f \<Longrightarrow> mergeField p c f = c"
  by (auto simp: mergeField_def adopts_def)

lemma hasConf_mergeField: "hasConf c \<Longrightarrow> hasConf (mergeField p c f)"
  by (auto simp: mergeField_def hasConf_def Let_def confidence_setField split: option.splits)

lemma getField_mergeField_same:
  "f \<in> set FIELDS \<Longrightarrow>
   getField f (mergeField p c f) = (if adopts p c f then getField f p else getField f c)"
  by (auto simp: mergeField_def adopts_def Let_def getField_setField_same
      getField_confidence_update split: option.splits)

lemma entry_mergeField_same:
  "hasConf c \<Longrightarrow>
   confidenceEntry (mergeField p c f) f =
     (if adopts p c f then Some (confOr0 (confidence p) f) else confidenceEntry c f)"
  by (auto simp: mergeField_def adopts_def Let_def hasConf_def confidenceEntry_def confidence_setField
      map_of_setProp split: option.splits)

lemma getField_mergeField_other: "g \<noteq> f \<Longrightarrow> getField g (mergeField p c f) = getField g c"
  by (auto simp: mergeField_def Let_def getField_setField_other getField_confidence_update
      split: option.splits)

lemma entry_mergeField_other: "g \<noteq> f \<Longrightarrow> confidenceEntry (mergeField p c f) g = confidenceEntry c g"
  by (auto simp: mergeField_def Let_def confidenceEntry_def confidence_setField map_of_setProp
      split: option.splits)

lemma found_mergeField:
  "fieldsFound (mergeField p c f) = fieldsFound c"
  "fieldsNotFound (mergeField p c f) = fieldsNotFound c"
  by (auto simp: mergeField_def Let_def found_setField confidence_setField split: option.splits)

lemma adopts_cong:
  "getField f c' = getField f c \<Longrightarrow> confidenceEntry c' f = confidenceEntry c f \<Longrightarrow> adopts p c' f = adopts p c f"
  by (simp add: adopts_def confOr0_entry)

lemma adopts_mergeField_other: "g \<noteq> f \<Longrightarrow> adopts p (mergeField p c f) g = adopts p c g"
  by (rule adopts_cong) (simp_all add: getField_mergeField_other entry_mergeField_other)

lemma settled_mergeField:
  "f \<in> set FIELDS \<Longrightarrow> hasConf c \<Longrightarrow> \<not> adopts p (mergeField p c f) f"
  by (auto simp: adopts_def[of p "mergeField p c f"] getField_mergeField_same
      confOr0_entry[of "mergeField p c f"] entry_mergeField_same)
     (auto simp: adopts_def confOr0_entry)

text \<open>The loop over a list of distinct fields acts on each field on its own.\<close>

lemma hasConf_foldl: "hasConf c \<Longrightarrow> hasConf (foldl (mergeField p) c fs)"
  by (induction fs arbitrary: c) (simp_all add: hasConf_mergeField)

lemma found_foldl:
  "fieldsFound (foldl (mergeField p) c fs) = fieldsFound c \<and>
   fieldsNotFound (foldl (mergeField p) c fs) = fieldsNotFound c"
  by (induction fs arbitrary: c) (simp_all add: found_mergeField)

lemma foldl_notin:
  "f \<notin> set fs \<Longrightarrow>
   getField f (foldl (mergeField p) c fs) = getField f c \<and>
   confidenceEntry (foldl (mergeField p) c fs) f = confidenceEntry c f"
  by (induction fs arbitrary: c) (auto simp: getField_mergeField_other entry_mergeField_other)

lemma foldl_in:
  "f \<in> set fs \<Longrightarrow> distinct fs \<Longrightarrow> set fs \<subseteq> set FIELDS \<Longrightarrow> hasConf c \<Longrightarrow>
   getField f (foldl (mergeField p) c fs) = (if adopts p c f then getField f p else getField f c) \<and>
   confidenceEntry (foldl (mergeField p) c fs) f =
     (if adopts p c f then Some (confOr0 (confidence p) f) else confidenceEntry c f)"
proof (induction fs arbitrary: c)
  case Nil
  then show ?case by simp
next
  case (Cons g gs)
  show ?case
  proof (cases "f = g")
    case True
    with Cons.prems have "f \<notin> set gs" by simp
    from foldl_notin[OF this, of p "mergeField p c g"] True Cons.prems show ?thesis
      by (simp add: getField_mergeField_same entry_mergeField_same)
  next
    case False
    with Cons.prems have "f \<in> set gs" "distinct gs" "set gs \<subseteq> set FIELDS" by auto
    from Cons.IH[OF this hasConf_mergeField[OF Cons.prems(4), of p g]] False show ?thesis
      by (simp add: adopts_mergeField_other getField_mergeField_other entry_mergeField_other)
  qed
qed

lemma mergePage_field:
  assumes "f \<in> set FIELDS" "hasConf c"
  shows "getField f (mergePage p c) = (if adopts p c f then getField f p else getField f c)"
    and "confidenceEntry (mergePage p c) f =
           (if adopts p c f then Some (confOr0 (confidence p) f) else confidenceEntry c f)"
  using foldl_in[OF assms(1) distinct_FIELDS subset_refl assms(2), of p]
  by (simp_all add: mergePage_def)

lemma mergePage_notfield:
  "f \<notin> set FIELDS \<Longrightarrow> confidenceEntry (mergePage p c) f = confidenceEntry c f"
  by (simp add: mergePage_def foldl_notin)

lemma hasConf_mergePage: "hasConf c \<Longrightarrow> hasConf (mergePage p c)"
  by (simp add: mergePage_def hasConf_foldl)

lemma hasConf_mergePages: "hasConf c \<Longrightarrow> hasConf (mergePages c ps)"
  by (induction ps arbitrary: c) (simp_all add: mergePages_def hasConf_mergePage)

lemma found_mergePage:
  "fieldsFound (mergePage p c) = fieldsFound c" "fieldsNotFound (mergePage p c) = fieldsNotFound c"
  by (simp_all add: mergePage_def found_foldl)

lemma mergePages_snoc: "mergePages c (ps @ [p]) = mergePage p (mergePages c ps)"
  by (simp add: mergePages_def)


section \<open>The invariant of the accumulator\<close>

lemma keysDistinct_hasConf: "keysDistinct c \<Longrightarrow> hasConf c"
  by (simp add: keysDistinct_def hasConf_def split: option.splits)

lemma keysDistinct_mergeField: "keysDistinct c \<Longrightarrow> keysDistinct (mergeField p c f)"
  by (auto simp: keysDistinct_def mergeField_def Let_def confidence_setField distinct_setProp
      split: option.splits)

lemma keysDistinct_foldl: "keysDistinct c \<Longrightarrow> keysDistinct (foldl (mergeField p) c fs)"
  by (induction fs arbitrary: c) (simp_all add: keysDistinct_mergeField)

lemma keysDistinct_mergePage: "keysDistinct c \<Longrightarrow> keysDistinct (mergePage p c)"
  by (simp add: mergePage_def keysDistinct_foldl)

lemma truthy_simps [simp]: "\<not> truthy None" "truthy (Some s) = (s \<noteq> [])"
  by (simp_all add: truthy_def)

lemma truthy_not_None: "truthy v \<Longrightarrow> v \<noteq> None"
  by (cases v) simp_all

lemma mergedOk_emptyCombined: "mergedOk emptyCombined"
  by (simp add: mergedOk_def keysDistinct_def emptyCombined_def confidenceEntry_def getField_def truthy_def)

lemma mergedOk_mergePage:
  assumes "mergedOk c"
  shows "mergedOk (mergePage p c)"
proof -
  from assms have kd: "keysDistinct c" and hc: "hasConf c"
    and e: "\<And>f. (confidenceEntry c f \<noteq> None) = truthy (getField f c)"
    and g: "\<And>f. (getField f c \<noteq> None) = truthy (getField f c)"
    by (simp_all add: mergedOk_def keysDistinct_hasConf)
  have "(confidenceEntry (mergePage p c) f \<noteq> None) = truthy (getField f (mergePage p c)) \<and>
        (getField f (mergePage p c) \<noteq> None) = truthy (getField f (mergePage p c))" for f
  proof (cases "f \<in> set FIELDS")
    case True
    show ?thesis
      using e[of f] g[of f]
      by (auto simp: mergePage_field[OF True hc] adopts_def dest: truthy_not_None)
  next
    case False
    then show ?thesis
      using e[of f] by (simp add: getField_unknown mergePage_notfield)
  qed
  with keysDistinct_mergePage[OF kd] show ?thesis
    by (simp add: mergedOk_def)
qed

lemma mergedOk_mergePages: "mergedOk c \<Longrightarrow> mergedOk (mergePages c ps)"
  by (induction ps arbitrary: c) (simp_all add: mergePages_def mergedOk_mergePage)

lemma mergedOk_merged: "mergedOk (mergePages emptyCombined ps)"
  by (simp add: mergedOk_mergePages mergedOk_emptyCombined)

text \<open>
  C2. Merging one more page changes a field of the accumulator exactly when the page has a
  truthy (non-empty) value for it and the accumulator has no value for it yet or the
  page's score (\<open>|| 0\<close>) is strictly greater than the accumulator's score: then the
  field and its score become the page's, else both stay. So of two pages that carry a
  field at equal scores the first one's value stays, and a strictly higher score of the
  second page replaces it.
\<close>
theorem merge_adopts_iff:
  "field \<in> set FIELDS \<Longrightarrow>
   (let combined = mergePages emptyCombined pages;
        after = mergePages emptyCombined (pages @ [pageData])
    in (getField field after, confOr0 (confidence after) field) =
       (if truthy (getField field pageData) \<and>
           (getField field combined = None \<or>
            confOr0 (confidence pageData) field > confOr0 (confidence combined) field)
        then (getField field pageData, confOr0 (confidence pageData) field)
        else (getField field combined, confOr0 (confidence combined) field))) \<and>
   (truthy (getField field a) \<and> truthy (getField field b) \<and>
    confOr0 (confidence b) field = confOr0 (confidence a) field \<longrightarrow>
      getField field (mergePages emptyCombined [a, b]) = getField field a) \<and>
   (truthy (getField field a) \<and> truthy (getField field b) \<and>
    confOr0 (confidence b) field > confOr0 (confidence a) field \<longrightarrow>
      getField field (mergePages emptyCombined [a, b]) = getField field b)"
proof -
  assume f: "field \<in> set FIELDS"
  have step: "getField field (mergePage p c) =
                (if adopts p c field then getField field p else getField field c) \<and>
              confOr0 (confidence (mergePage p c)) field =
                (if adopts p c field then confOr0 (confidence p) field
                 else confOr0 (confidence c) field)"
    if "mergedOk c" for p c
    using that mergePage_field[OF f, of c p]
    by (simp add: mergedOk_def keysDistinct_hasConf confOr0_entry[of "mergePage p c"]
        confOr0_entry[of c])
  have absent: "(getField field c = None) = (\<not> truthy (getField field c))" if "mergedOk c" for c
    using that by (auto simp: mergedOk_def)
  let ?c = "mergePages emptyCombined pages"
  have 1: "(getField field (mergePage pageData ?c), confOr0 (confidence (mergePage pageData ?c)) field) =
       (if truthy (getField field pageData) \<and>
           (getField field ?c = None \<or>
            confOr0 (confidence pageData) field > confOr0 (confidence ?c) field)
        then (getField field pageData, confOr0 (confidence pageData) field)
        else (getField field ?c, confOr0 (confidence ?c) field))"
    using step[OF mergedOk_merged, of pageData pages] absent[OF mergedOk_merged, of pages]
    by (auto simp: adopts_def)
  have e0: "getField field emptyCombined = None" "confOr0 (confidence emptyCombined) field = 0"
    by (simp_all add: emptyCombined_def getField_def confOr0_def)
  have first: "getField field (mergePage a emptyCombined) = getField field a \<and>
               confOr0 (confidence (mergePage a emptyCombined)) field = confOr0 (confidence a) field"
    if "truthy (getField field a)"
    using that step[OF mergedOk_emptyCombined, of a] by (simp add: adopts_def e0 truthy_def)
  have ok1: "mergedOk (mergePage a emptyCombined)"
    by (simp add: mergedOk_mergePage mergedOk_emptyCombined)
  have two: "mergePages emptyCombined [a, b] = mergePage b (mergePage a emptyCombined)"
    by (simp add: mergePages_def)
  have 2: "truthy (getField field a) \<and> truthy (getField field b) \<and>
    confOr0 (confidence b) field = confOr0 (confidence a) field \<longrightarrow>
      getField field (mergePages emptyCombined [a, b]) = getField field a"
    using step[OF ok1, of b] first by (auto simp: two adopts_def)
  have 3: "truthy (getField field a) \<and> truthy (getField field b) \<and>
    confOr0 (confidence b) field > confOr0 (confidence a) field \<longrightarrow>
      getField field (mergePages emptyCombined [a, b]) = getField field b"
    using step[OF ok1, of b] first by (auto simp: two adopts_def)
  from 1 2 3 show ?thesis
    by (simp add: mergePages_snoc Let_def)
qed


theorem merge_adopts_iff_witness:
  "''cif'' \<in> set FIELDS \<and>
   getField ''cif'' (mergePages emptyCombined [examplePage ''cif'' ''A'' 80, examplePage ''cif'' ''B'' 80]) = Some ''A'' \<and>
   getField ''cif'' (mergePages emptyCombined [examplePage ''cif'' ''A'' 80, examplePage ''cif'' ''B'' 81]) = Some ''B''"
  using merge_adopts_iff[of "''cif''" "[]" "examplePage ''cif'' ''A'' 80" "examplePage ''cif'' ''A'' 80" "examplePage ''cif'' ''B'' 80"]
    merge_adopts_iff[of "''cif''" "[]" "examplePage ''cif'' ''A'' 80" "examplePage ''cif'' ''A'' 80" "examplePage ''cif'' ''B'' 81"]
  by (simp add: FIELDS_def examplePage_def emptyCombined_def getField_def setField_def confOr0_def)

section \<open>The two lists of field names\<close>

lemma getField_pushField: "getField g (pushField c f) = getField g c"
  by (simp add: pushField_def getField_found_update)

lemma confidence_pushField: "confidence (pushField c f) = confidence c"
  by (simp add: pushField_def)

lemma foldl_pushField:
  "fieldsFound (foldl pushField c fs) = fieldsFound c @ filter (\<lambda>f. truthy (getField f c)) fs \<and>
   fieldsNotFound (foldl pushField c fs) =
     fieldsNotFound c @ filter (\<lambda>f. \<not> truthy (getField f c)) fs \<and>
   (\<forall>g. getField g (foldl pushField c fs) = getField g c) \<and>
   confidence (foldl pushField c fs) = confidence c"
proof (induction fs arbitrary: c)
  case Nil
  show ?case by simp
next
  case (Cons f fs)
  have "fieldsFound (pushField c f) = fieldsFound c @ (if truthy (getField f c) then [f] else [])"
    "fieldsNotFound (pushField c f) = fieldsNotFound c @ (if truthy (getField f c) then [] else [f])"
    by (simp_all add: pushField_def)
  with Cons.IH[of "pushField c f"] show ?case
    by (simp add: getField_pushField confidence_pushField)
qed

lemma rebuildFound_props:
  "fieldsFound (rebuildFound c) = fieldsFound c @ filter (\<lambda>f. truthy (getField f c)) FIELDS"
  "fieldsNotFound (rebuildFound c) = fieldsNotFound c @ filter (\<lambda>f. \<not> truthy (getField f c)) FIELDS"
  "getField g (rebuildFound c) = getField g c"
  "confidence (rebuildFound c) = confidence c"
  using foldl_pushField[of c FIELDS] by (simp_all add: rebuildFound_def)

lemma confidenceEntry_rebuildFound: "confidenceEntry (rebuildFound c) = confidenceEntry c"
  by (simp add: fun_eq_iff confidenceEntry_def rebuildFound_props)

lemma found_mergePages:
  "fieldsFound (mergePages c ps) = fieldsFound c \<and> fieldsNotFound (mergePages c ps) = fieldsNotFound c"
  by (induction ps arbitrary: c) (simp_all add: mergePages_def found_mergePage)

lemma found_merged:
  "fieldsFound (mergePages emptyCombined ps) = []" "fieldsNotFound (mergePages emptyCombined ps) = []"
  using found_mergePages[of emptyCombined ps] by (simp_all add: emptyCombined_def)

lemma combineData_fields:
  "getField f (combineData ps) = getField f (mergePages emptyCombined ps)"
  "confidence (combineData ps) = confidence (mergePages emptyCombined ps)"
  "fieldsFound (combineData ps) =
     filter (\<lambda>f. getField f (mergePages emptyCombined ps) \<noteq> None) FIELDS"
  "fieldsNotFound (combineData ps) =
     filter (\<lambda>f. getField f (mergePages emptyCombined ps) = None) FIELDS"
proof -
  have t: "truthy (getField f (mergePages emptyCombined ps)) =
           (getField f (mergePages emptyCombined ps) \<noteq> None)" for f
    using mergedOk_merged[of ps] by (simp add: mergedOk_def)
  show "getField f (combineData ps) = getField f (mergePages emptyCombined ps)"
    "confidence (combineData ps) = confidence (mergePages emptyCombined ps)"
    by (simp_all add: combineData_def rebuildFound_props)
  show "fieldsFound (combineData ps) =
     filter (\<lambda>f. getField f (mergePages emptyCombined ps) \<noteq> None) FIELDS"
    by (simp add: combineData_def rebuildFound_props found_merged t)
  show "fieldsNotFound (combineData ps) =
     filter (\<lambda>f. getField f (mergePages emptyCombined ps) = None) FIELDS"
    by (simp add: combineData_def rebuildFound_props found_merged t)
qed

text \<open>
  C4. In every merged result \<open>fieldsFound\<close> is the list of the six fields that hold a
  value and \<open>fieldsNotFound\<close> the list of those that hold none, both in the order of
  the schema (cif, loanNumber, account, fullName, dpi, loanAmount), whatever page a
  value came from; the second list is the complement of the first in the six fields.
\<close>
theorem found_lists_in_schema_order:
  "fieldsFound (combineData pages) = filter (\<lambda>f. getField f (combineData pages) \<noteq> None) FIELDS \<and>
   fieldsNotFound (combineData pages) =
     filter (\<lambda>f. getField f (combineData pages) = None) FIELDS \<and>
   set (fieldsNotFound (combineData pages)) = set FIELDS - set (fieldsFound (combineData pages))"
  by (auto simp: combineData_fields)

lemma examplePages_found:
  "fieldsFound (combineData examplePages) = [''cif'', ''dpi'']"
  "fieldsNotFound (combineData examplePages) =
     [''loanNumber'', ''account'', ''fullName'', ''loanAmount'']"
  by code_simp+

theorem found_lists_in_schema_order_witness:
  "fieldsFound (combineData examplePages) = [''cif'', ''dpi''] \<and>
   fieldsNotFound (combineData examplePages) =
     [''loanNumber'', ''account'', ''fullName'', ''loanAmount'']"
  using found_lists_in_schema_order[of examplePages] by (simp add: examplePages_found)

section \<open>The average\<close>

lemma foldl_plus: "foldl (+) a vs = a + sum_list (vs :: int list)"
  by (induction vs arbitrary: a) simp_all

lemma map_of_distinct_key:
  "distinct (map fst kvs) \<Longrightarrow> kv \<in> set kvs \<Longrightarrow> the (map_of kvs (fst kv)) = snd kv"
  by (cases kv) simp

lemma values_sum:
  assumes "distinct (map fst kvs)"
  shows "sum_list (map snd kvs) = (\<Sum>k\<in>dom (map_of kvs). the (map_of kvs k))"
proof -
  have "map snd kvs = map (\<lambda>k. the (map_of kvs k)) (map fst kvs)"
    using assms by (simp add: map_of_distinct_key)
  then have "sum_list (map snd kvs) = sum_list (map (\<lambda>k. the (map_of kvs k)) (map fst kvs))"
    by (rule arg_cong)
  also have "\<dots> = (\<Sum>k\<in>set (map fst kvs). the (map_of kvs k))"
    using assms by (rule sum_list_distinct_conv_sum_set)
  finally show ?thesis
    by (simp add: dom_map_of_conv_image_fst)
qed

lemma keys_card: "distinct (map fst kvs) \<Longrightarrow> card (dom (map_of kvs)) = length kvs"
  using distinct_card[of "map fst kvs"] by (simp add: dom_map_of_conv_image_fst)

lemma avgConfidence_spec:
  assumes "keysDistinct c"
  shows "avgConfidence c = specAverageConfidence (confidenceEntry c)"
proof -
  from assms obtain kvs where c: "confidence c = Some kvs" and d: "distinct (map fst kvs)"
    by (auto simp: keysDistinct_def split: option.splits)
  have e: "confidenceEntry c = map_of kvs"
    by (simp add: fun_eq_iff confidenceEntry_def c)
  show ?thesis
  proof (cases kvs)
    case Nil
    then show ?thesis
      by (simp add: avgConfidence_def confidenceValues_def c e specAverageConfidence_def)
  next
    case (Cons kv rest)
    then have "dom (map_of kvs) \<noteq> {}" by (cases kv) auto
    then show ?thesis
      using values_sum[OF d] keys_card[OF d] Cons
      by (simp add: avgConfidence_def confidenceValues_def c e specAverageConfidence_def
          foldl_plus Let_def del: sum_list.Cons list.map)
  qed
qed

lemma keysDistinct_combineData: "keysDistinct (combineData ps)"
  using mergedOk_merged[of ps] by (simp add: mergedOk_def keysDistinct_def combineData_fields)

lemma confidenceEntry_combineData:
  "confidenceEntry (combineData ps) = confidenceEntry (mergePages emptyCombined ps)"
  by (simp add: combineData_def confidenceEntry_rebuildFound)

lemma dom_confidence_combineData:
  "dom (confidenceEntry (combineData ps)) = set (fieldsFound (combineData ps))"
proof -
  have e: "(confidenceEntry (mergePages emptyCombined ps) f \<noteq> None) =
           truthy (getField f (mergePages emptyCombined ps))"
    and g: "(getField f (mergePages emptyCombined ps) \<noteq> None) =
           truthy (getField f (mergePages emptyCombined ps))" for f
    using mergedOk_merged[of ps] by (simp_all add: mergedOk_def)
  have "f \<in> set FIELDS" if "getField f (mergePages emptyCombined ps) \<noteq> None" for f
    using that getField_unknown[of f "mergePages emptyCombined ps"] by (cases "f \<in> set FIELDS") simp_all
  then show ?thesis
    using e g by (auto simp: confidenceEntry_combineData combineData_fields dom_def)
qed






section \<open>Repeated pages and pages without a score\<close>

lemma foldl_settled: "(\<forall>f\<in>set fs. \<not> adopts p c f) \<Longrightarrow> foldl (mergeField p) c fs = c"
  by (induction fs) (simp_all add: mergeField_no)

lemma settled_mergePage:
  assumes "f \<in> set FIELDS" "hasConf c"
  shows "\<not> adopts p (mergePage p c) f"
proof (cases "adopts p c f")
  case True
  then show ?thesis
    by (simp add: adopts_def[of p "mergePage p c"] mergePage_field[OF assms]
        confOr0_entry[of "mergePage p c"])
next
  case False
  then show ?thesis
    by (simp add: adopts_def[of p "mergePage p c"] mergePage_field[OF assms]
        confOr0_entry[of "mergePage p c"]) (simp add: adopts_def confOr0_entry)
qed

lemma mergePage_idem: "hasConf c \<Longrightarrow> mergePage p (mergePage p c) = mergePage p c"
  using foldl_settled[of FIELDS p "mergePage p c"]
  by (simp add: settled_mergePage mergePage_def[of p "mergePage p c"])

lemma hasConf_emptyCombined: "hasConf emptyCombined"
  by (simp add: hasConf_def emptyCombined_def)

lemma examplePage_avg: "avgConfidence (combineData [examplePage ''cif'' ''A'' 80]) = 80"
  by code_simp

text \<open>
  C3. Merging a page twice gives the same merged record (fields, both lists and the
  \<open>confidence\<close> object) and the same average as merging it once.
\<close>
theorem merge_duplicate_page:
  "combineData [p, p] = combineData [p] \<and>
   avgConfidence (combineData [p, p]) = avgConfidence (combineData [p])"
  by (simp add: combineData_def mergePages_def mergePage_idem hasConf_emptyCombined)

theorem merge_duplicate_page_witness:
  "combineData [examplePage ''cif'' ''A'' 80, examplePage ''cif'' ''A'' 80] =
     combineData [examplePage ''cif'' ''A'' 80] \<and>
   avgConfidence (combineData [examplePage ''cif'' ''A'' 80, examplePage ''cif'' ''A'' 80]) = 80"
  using merge_duplicate_page[of "examplePage ''cif'' ''A'' 80"] examplePage_avg by simp

lemma mergePage_absent:
  assumes f: "field \<in> set FIELDS" and ok: "mergedOk c"
    and t: "truthy (getField field pageData)" and a: "getField field c = None"
  shows "getField field (mergePage pageData c) = getField field pageData"
    and "confidenceEntry (mergePage pageData c) field = Some (confOr0 (confidence pageData) field)"
proof -
  from ok have hc: "hasConf c" by (simp add: mergedOk_def keysDistinct_hasConf)
  have "adopts pageData c field" using t a by (simp add: adopts_def)
  then show "getField field (mergePage pageData c) = getField field pageData"
    and "confidenceEntry (mergePage pageData c) field = Some (confOr0 (confidence pageData) field)"
    by (simp_all add: mergePage_field[OF f hc])
qed

text \<open>
  C10, as amended. A page that has a truthy value for a field and reads score 0 for it
  (no \<open>confidence\<close> object, no entry or a 0 entry), merged when no earlier page has
  given the field a value, is adopted with an entry 0 for the field in the merged
  \<open>confidence\<close> object; the field is found, and the average is the mean over the keys
  of that object, so the 0 is counted.
\<close>
theorem missing_score_recorded_as_zero:
  assumes "field \<in> set FIELDS"
    and "truthy (getField field pageData)"
    and "confOr0 (confidence pageData) field = 0"
    and "getField field (combineData pages) = None"
  shows "getField field (combineData (pages @ [pageData])) = getField field pageData \<and>
         confidenceEntry (combineData (pages @ [pageData])) field = Some 0 \<and>
         field \<in> set (fieldsFound (combineData (pages @ [pageData]))) \<and>
         avgConfidence (combineData (pages @ [pageData])) =
           specAverageConfidence (confidenceEntry (combineData (pages @ [pageData])))"
proof -
  let ?r = "combineData (pages @ [pageData])"
  from assms(4) have a: "getField field (mergePages emptyCombined pages) = None"
    by (simp add: combineData_fields)
  from mergePage_absent[OF assms(1) mergedOk_merged assms(2) a] assms(3)
  have 1: "getField field ?r = getField field pageData"
    and 2: "confidenceEntry ?r field = Some 0"
    by (simp_all add: combineData_fields confidenceEntry_combineData mergePages_snoc)
  from 2 have "field \<in> dom (confidenceEntry ?r)" by (simp add: dom_def)
  then have 3: "field \<in> set (fieldsFound ?r)"
    by (simp add: dom_confidence_combineData)
  from 1 2 3 show ?thesis
    by (simp add: avgConfidence_spec keysDistinct_combineData)
qed

text \<open>
  As stated for every such page, C10 fails: a later page without a score does not replace
  a value that an earlier page gave at score 80.
\<close>

theorem later_page_without_score_not_adopted:
  "truthy (getField ''cif'' (noScorePage ''cif'' ''B'')) \<and>
   confidenceEntry (noScorePage ''cif'' ''B'') ''cif'' = None \<and>
   getField ''cif'' (combineData [examplePage ''cif'' ''A'' 80, noScorePage ''cif'' ''B''])
     \<noteq> getField ''cif'' (noScorePage ''cif'' ''B'') \<and>
   confidenceEntry (combineData [examplePage ''cif'' ''A'' 80, noScorePage ''cif'' ''B'']) ''cif''
     \<noteq> Some 0"
  by code_simp

lemma zeroScore_example:
  "''dpi'' \<in> set FIELDS"
  "truthy (getField ''dpi'' (noScorePage ''dpi'' ''1234''))"
  "confOr0 (confidence (noScorePage ''dpi'' ''1234'')) ''dpi'' = 0"
  "getField ''dpi'' (combineData [examplePage ''cif'' ''C-9'' 90]) = None"
  "avgConfidence (combineData [examplePage ''cif'' ''C-9'' 90]) = 90"
  "avgConfidence (combineData ([examplePage ''cif'' ''C-9'' 90] @ [noScorePage ''dpi'' ''1234''])) = 45"
  by code_simp+

theorem missing_score_recorded_as_zero_witness:
  "confidenceEntry (combineData ([examplePage ''cif'' ''C-9'' 90] @ [noScorePage ''dpi'' ''1234''])) ''dpi'' = Some 0 \<and>
   ''dpi'' \<in> set (fieldsFound (combineData ([examplePage ''cif'' ''C-9'' 90] @ [noScorePage ''dpi'' ''1234'']))) \<and>
   specAverageConfidence (confidenceEntry (combineData ([examplePage ''cif'' ''C-9'' 90] @ [noScorePage ''dpi'' ''1234'']))) = 45 \<and>
   avgConfidence (combineData [examplePage ''cif'' ''C-9'' 90]) = 90"
  using missing_score_recorded_as_zero[OF zeroScore_example(1-4)] zeroScore_example(5,6) by simp

section \<open>The store\<close>

lemma updateDocument_Some:
  "documents st i = Some existing \<Longrightarrow>
   updateDocument now i updates st =
     (Some (updated now existing updates),
      st\<lparr>documents := (documents st)(i \<mapsto> updated now existing updates)\<rparr>)"
  by (simp add: updateDocument_def)

lemma updateDocument_None: "documents st i = None \<Longrightarrow> updateDocument now i updates st = (None, st)"
  by (simp add: updateDocument_def)

lemma orElse_simps [simp]: "orElse None old = old" "orElse (Some v) old = v"
  by (simp_all add: orElse_def)

lemma processedAt_updated:
  "processedAt (updated now existing updates) =
     (if u_status updates = Some ''processed'' \<and> processedAt existing = None then Some now
      else orElse (u_processedAt updates) (processedAt existing))"
  by (simp add: updated_def spread_def)


lemma updateMany_keeps_processedAt:
  "documents st i = Some existing \<Longrightarrow> processedAt existing = Some t \<Longrightarrow>
   list_all (\<lambda>nu. u_processedAt (snd nu) = None) us \<Longrightarrow>
   map_option processedAt (documents (updateMany us i st) i) = Some (Some t)"
proof (induction us arbitrary: st existing)
  case Nil
  then show ?case by simp
next
  case (Cons nu us)
  obtain now updates where nu: "nu = (now, updates)" by (cases nu)
  from Cons.prems have k: "u_processedAt updates = None" and r: "list_all (\<lambda>nu. u_processedAt (snd nu) = None) us"
    by (simp_all add: nu)
  let ?d = "updated now existing updates"
  have 1: "documents (snd (updateDocument now i updates st)) i = Some ?d"
    by (simp add: updateDocument_Some[OF Cons.prems(1)])
  have 2: "processedAt ?d = Some t"
    using Cons.prems(2) k by (simp add: processedAt_updated)
  from Cons.IH[OF 1 2 r] show ?case by (simp add: nu)
qed

lemma updated_explicit:
  "updated now existing updates =
     \<lparr>docId = docId existing,
      filename = (case u_filename updates of None \<Rightarrow> filename existing | Some v \<Rightarrow> v),
      originalFilename =
        (case u_originalFilename updates of None \<Rightarrow> originalFilename existing | Some v \<Rightarrow> v),
      fileType = (case u_fileType updates of None \<Rightarrow> fileType existing | Some v \<Rightarrow> v),
      mimeType = (case u_mimeType updates of None \<Rightarrow> mimeType existing | Some v \<Rightarrow> v),
      fileSize = (case u_fileSize updates of None \<Rightarrow> fileSize existing | Some v \<Rightarrow> v),
      filePath = (case u_filePath updates of None \<Rightarrow> filePath existing | Some v \<Rightarrow> v),
      status = (case u_status updates of None \<Rightarrow> status existing | Some v \<Rightarrow> v),
      uploadedAt = uploadedAt existing,
      processedAt =
        (if u_status updates = Some ''processed'' \<and> processedAt existing = None then Some now
         else (case u_processedAt updates of None \<Rightarrow> processedAt existing | Some v \<Rightarrow> v)),
      extractedData =
        (case u_extractedData updates of None \<Rightarrow> extractedData existing | Some v \<Rightarrow> v),
      errorMessage =
        (case u_errorMessage updates of None \<Rightarrow> errorMessage existing | Some v \<Rightarrow> v),
      processingTime =
        (case u_processingTime updates of None \<Rightarrow> processingTime existing | Some v \<Rightarrow> v),
      docConfidence =
        (case u_confidence updates of None \<Rightarrow> docConfidence existing | Some v \<Rightarrow> v)\<rparr>"
  by (simp add: updated_def spread_def orElse_def)

text \<open>
  C9, as amended. For an existing id \<open>updateDocument\<close> stores and returns the record in
  which every key of the partial update has replaced its column and every other column
  is kept. It sets \<open>processedAt\<close> to the current date exactly when the update has status
  \<open>processed\<close> and the stored \<open>processedAt\<close> is \<open>null\<close>, also over a \<open>processedAt\<close> key of
  the update; otherwise \<open>processedAt\<close> is the update's key when it has one and the stored
  date when it has none. So a date already there stays over every sequence of updates
  that do not carry the key.
\<close>
theorem update_merges_and_dates_once:
  assumes "documents st i = Some existing"
  shows
    "(let merged =
        \<lparr>docId = docId existing,
         filename = (case u_filename updates of None \<Rightarrow> filename existing | Some v \<Rightarrow> v),
         originalFilename =
           (case u_originalFilename updates of None \<Rightarrow> originalFilename existing | Some v \<Rightarrow> v),
         fileType = (case u_fileType updates of None \<Rightarrow> fileType existing | Some v \<Rightarrow> v),
         mimeType = (case u_mimeType updates of None \<Rightarrow> mimeType existing | Some v \<Rightarrow> v),
         fileSize = (case u_fileSize updates of None \<Rightarrow> fileSize existing | Some v \<Rightarrow> v),
         filePath = (case u_filePath updates of None \<Rightarrow> filePath existing | Some v \<Rightarrow> v),
         status = (case u_status updates of None \<Rightarrow> status existing | Some v \<Rightarrow> v),
         uploadedAt = uploadedAt existing,
         processedAt =
           (if u_status updates = Some ''processed'' \<and> processedAt existing = None then Some now
            else (case u_processedAt updates of None \<Rightarrow> processedAt existing | Some v \<Rightarrow> v)),
         extractedData =
           (case u_extractedData updates of None \<Rightarrow> extractedData existing | Some v \<Rightarrow> v),
         errorMessage =
           (case u_errorMessage updates of None \<Rightarrow> errorMessage existing | Some v \<Rightarrow> v),
         processingTime =
           (case u_processingTime updates of None \<Rightarrow> processingTime existing | Some v \<Rightarrow> v),
         docConfidence =
           (case u_confidence updates of None \<Rightarrow> docConfidence existing | Some v \<Rightarrow> v)\<rparr>
      in updateDocument now i updates st =
           (Some merged, st\<lparr>documents := (documents st)(i \<mapsto> merged)\<rparr>)) \<and>
     (processedAt existing = Some t \<and> u_processedAt updates = None \<longrightarrow>
        map_option processedAt (fst (updateDocument now i updates st)) = Some (Some t)) \<and>
     (processedAt existing = Some t \<and> u_processedAt updates = Some v \<longrightarrow>
        map_option processedAt (fst (updateDocument now i updates st)) = Some v) \<and>
     (processedAt existing = None \<and> u_status updates = Some ''processed'' \<longrightarrow>
        map_option processedAt (fst (updateDocument now i updates st)) = Some (Some now)) \<and>
     (processedAt existing = Some t \<and> list_all (\<lambda>nu. u_processedAt (snd nu) = None) us \<longrightarrow>
        map_option processedAt (documents (updateMany us i st) i) = Some (Some t))"
proof -
  have 1: "updateDocument now i updates st =
           (Some (updated now existing updates),
            st\<lparr>documents := (documents st)(i \<mapsto> updated now existing updates)\<rparr>)"
    by (rule updateDocument_Some[OF assms])
  have 2: "processedAt (updated now existing updates) =
           (if u_status updates = Some ''processed'' \<and> processedAt existing = None then Some now
            else (case u_processedAt updates of None \<Rightarrow> processedAt existing | Some v \<Rightarrow> v))"
    by (simp add: processedAt_updated orElse_def)
  have 3: "processedAt existing = Some t \<and> list_all (\<lambda>nu. u_processedAt (snd nu) = None) us \<longrightarrow>
        map_option processedAt (documents (updateMany us i st) i) = Some (Some t)"
    using updateMany_keeps_processedAt[OF assms, of t us] by simp
  show ?thesis
    unfolding Let_def updated_explicit[symmetric]
    using 3 by (simp add: 1 2)
qed

text \<open>
  As stated for every partial update, C9 fails: an update that carries the key
  \<open>processedAt\<close> replaces a date already there.
\<close>

theorem explicit_processedAt_overwrites:
  "documents datedStorage 7 = Some datedDocument \<and>
   processedAt datedDocument = Some 5000 \<and>
   map_option processedAt (fst (updateDocument 9000 7 redateUpdate datedStorage)) = Some (Some 7000)"
  by (simp add: datedStorage_def datedDocument_def redateUpdate_def updateDocument_def updated_def
      spread_def noUpdates_def)

section \<open>One run of the pipeline\<close>

lemma updated_statusUpdate:
  "s \<noteq> ''processed'' \<Longrightarrow> updated now d (statusUpdate s) = d\<lparr>status := s\<rparr>"
  by (simp add: updated_def spread_def statusUpdate_def noUpdates_def)

lemma updated_failureUpdate:
  "updated now d (failureUpdate e) =
     d\<lparr>status := ''failed'', errorMessage := Some (messageOr e ''Unknown error occurred'')\<rparr>"
  by (simp add: updated_def spread_def failureUpdate_def noUpdates_def)

lemma updated_successUpdate:
  "updated now d (successUpdate env ps) =
     d\<lparr>status := ''processed'', extractedData := Some (combineData ps),
       processingTime := Some (elapsedMs env),
       docConfidence := Some (avgConfidence (combineData ps)), errorMessage := None,
       processedAt := (case processedAt d of None \<Rightarrow> Some now | Some t \<Rightarrow> Some t)\<rparr>"
  by (simp add: updated_def spread_def successUpdate_def noUpdates_def split: option.splits)


lemma beginRun_Some:
  "documents st i = Some d \<Longrightarrow>
   beginRun now i st =
     (Some (d\<lparr>status := ''processing''\<rparr>),
      st\<lparr>documents := (documents st)(i \<mapsto> d\<lparr>status := ''processing''\<rparr>)\<rparr>)"
  by (simp add: beginRun_def updateDocument_Some updated_statusUpdate getDocument_def)

lemma beginRun_None: "documents st i = None \<Longrightarrow> beginRun now i st = (None, st)"
  by (simp add: beginRun_def updateDocument_None getDocument_def)

lemma processDocument_Some:
  "documents st i = Some d \<Longrightarrow>
   processDocument env i st =
     st\<lparr>documents := (documents st)
          (i \<mapsto> updated (finishedAt env) (d\<lparr>status := ''processing''\<rparr>)
                  (finalUpdate env (Some (d\<lparr>status := ''processing''\<rparr>))))\<rparr>"
  by (simp add: processDocument_def beginRun_Some finishRun_def updateDocument_Some)

text \<open>
  C8. A run whose try block throws leaves the document as it was before the run but for
  \<open>status\<close>, now \<open>failed\<close>, and \<open>errorMessage\<close>, now the message of the error; the
  failure write on any stored record changes these two columns only.
\<close>
theorem failure_write_frame:
  assumes "documents st i = Some d"
    and "tryBlock env (fst (beginRun (startedAt env) i st)) = Inl e"
  shows "processDocument env i st =
           st\<lparr>documents := (documents st)
                (i \<mapsto> d\<lparr>status := ''failed'',
                        errorMessage := Some (messageOr e ''Unknown error occurred'')\<rparr>)\<rparr> \<and>
         (\<forall>now d' st'. documents st' i = Some d' \<longrightarrow>
            snd (updateDocument now i (failureUpdate e) st') =
              st'\<lparr>documents := (documents st')
                   (i \<mapsto> d'\<lparr>status := ''failed'',
                            errorMessage := Some (messageOr e ''Unknown error occurred'')\<rparr>)\<rparr>)"
proof -
  from assms have t: "tryBlock env (Some (d\<lparr>status := ''processing''\<rparr>)) = Inl e"
    by (simp add: beginRun_Some)
  have "processDocument env i st =
           st\<lparr>documents := (documents st)
                (i \<mapsto> d\<lparr>status := ''failed'',
                        errorMessage := Some (messageOr e ''Unknown error occurred'')\<rparr>)\<rparr>"
    by (simp add: processDocument_Some[OF assms(1)] finalUpdate_def t updated_failureUpdate)
  then show ?thesis
    by (simp add: updateDocument_Some updated_failureUpdate)
qed


lemma processPages_acc: "processPages bs acc = acc @ extractedOf bs"
  by (induction bs arbitrary: acc)
     (auto simp: extractedOf_def List.map_filter_simps processImageBuffer_def split: page_io.splits)

lemma extractedOf_Nil_iff: "(extractedOf bs = []) = list_all pageFails bs"
  by (induction bs) (auto simp: extractedOf_def List.map_filter_simps pageFails_def split: page_io.splits)

lemma tryBlock_pdf:
  assumes "fileType d = ''pdf''" "readFile_throws env = None" "pdf_pages env = Some pages"
  shows "tryBlock env (Some d) =
           (if list_all pageFails pages then Inl (ErrorObj ''No data could be extracted from any page'')
            else Inr (successUpdate env (extractedOf pages)))"
  using assms extractedOf_Nil_iff[of pages]
  by (simp add: tryBlock_def extractAll_def processPages_acc)

lemma tryBlock_image:
  assumes "fileType d \<noteq> ''pdf''" "readFile_throws env = None"
  shows "tryBlock env (Some d) =
           (case image_page env of
              SharpThrows e \<Rightarrow> Inl e
            | ExtractThrows e \<Rightarrow> Inl (extractionError e)
            | Extracted x \<Rightarrow> Inr (successUpdate env [x]))"
  using assms
  by (simp add: tryBlock_def extractAll_def processImageBuffer_def split: page_io.splits)

text \<open>
  C7. When the file is read and normalization yields at least one page, the run ends
  \<open>failed\<close> exactly when every page fails; otherwise it ends \<open>processed\<close> with the merge
  of the pages that did not fail, the failing ones skipped. When every page fails the
  message is \<open>No data could be extracted from any page\<close> for a PDF, and for an image
  the client's \<open>Failed to extract data: \<close> followed by the cause.
\<close>
theorem fails_only_if_every_page_fails:
  assumes "documents st i = Some d"
    and "readFile_throws env = None"
    and "normalized env d = Some pages"
    and "pages \<noteq> []"
  shows "\<exists>d'. documents (processDocument env i st) i = Some d' \<and>
           (status d' = ''failed'') = list_all pageFails pages \<and>
           (\<not> list_all pageFails pages \<longrightarrow>
              status d' = ''processed'' \<and>
              extractedData d' = Some (combineData (extractedOf pages))) \<and>
           (list_all pageFails pages \<and> fileType d = ''pdf'' \<longrightarrow>
              errorMessage d' = Some ''No data could be extracted from any page'') \<and>
           (list_all pageFails pages \<and> fileType d \<noteq> ''pdf'' \<longrightarrow>
              (\<exists>e. pages = [ExtractThrows e] \<and>
                   errorMessage d' =
                     Some (''Failed to extract data: '' @ messageOr e ''Unknown error'')))"
proof (cases "fileType d = ''pdf''")
  case True
  let ?p = "d\<lparr>status := ''processing''\<rparr>"
  from True assms(3) have pp: "pdf_pages env = Some pages"
    by (simp add: normalized_def)
  have ft: "fileType ?p = ''pdf''" using True by simp
  show ?thesis
    by (simp add: processDocument_Some[OF assms(1)] finalUpdate_def
        tryBlock_pdf[OF ft assms(2) pp] updated_failureUpdate updated_successUpdate True
        messageOr_def)
next
  case False
  let ?p = "d\<lparr>status := ''processing''\<rparr>"
  have ft: "fileType ?p \<noteq> ''pdf''" using False by simp
  from False assms(3) have "pages = [image_page env]" and ns: "\<forall>e. image_page env \<noteq> SharpThrows e"
    by (auto simp: normalized_def split: page_io.splits)
  then show ?thesis
    by (cases "image_page env")
       (simp_all add: processDocument_Some[OF assms(1)] finalUpdate_def
        tryBlock_image[OF ft assms(2)] updated_failureUpdate updated_successUpdate False
        pageFails_def extractedOf_def List.map_filter_simps extractionError_def messageOr_def)
qed


lemma example_run_facts:
  "documents exampleStorage 7 = Some exampleDocument"
  "readFile_throws (exampleEnv ios) = None"
  "normalized (exampleEnv [failingPage, Extracted (examplePage ''cif'' ''C-9'' 90)]) exampleDocument
     = Some [failingPage, Extracted (examplePage ''cif'' ''C-9'' 90)]"
  "normalized (exampleEnv [failingPage, failingPage]) exampleDocument = Some [failingPage, failingPage]"
  by (simp_all add: exampleStorage_def exampleEnv_def normalized_def exampleDocument_def)

lemma example_run_results:
  "map_option status (documents (processDocument
      (exampleEnv [failingPage, Extracted (examplePage ''cif'' ''C-9'' 90)]) 7 exampleStorage) 7)
     = Some ''processed''"
  "map_option status (documents (processDocument (exampleEnv [failingPage, failingPage]) 7 exampleStorage) 7)
     = Some ''failed''"
  "map_option errorMessage
     (documents (processDocument (exampleEnv [failingPage, failingPage]) 7 exampleStorage) 7)
     = Some (Some ''No data could be extracted from any page'')"
  by code_simp+

lemma image_run_facts:
  "documents imageStorage 9 = Some imageDocument"
  "readFile_throws imageEnv = None"
  "normalized imageEnv imageDocument = Some [failingPage]"
  by (simp_all add: imageStorage_def imageEnv_def exampleEnv_def normalized_def imageDocument_def
      exampleDocument_def failingPage_def)

lemma image_run_results:
  "map_option status (documents (processDocument imageEnv 9 imageStorage) 9) = Some ''failed''"
  "map_option errorMessage (documents (processDocument imageEnv 9 imageStorage) 9) =
     Some (Some ''Failed to extract data: 429 rate limit'')"
  by code_simp+

theorem fails_only_if_every_page_fails_witness:
  "map_option status (documents (processDocument
      (exampleEnv [failingPage, Extracted (examplePage ''cif'' ''C-9'' 90)]) 7 exampleStorage) 7)
     = Some ''processed'' \<and>
   map_option status (documents (processDocument (exampleEnv [failingPage, failingPage]) 7 exampleStorage) 7)
     = Some ''failed'' \<and>
   map_option errorMessage
     (documents (processDocument (exampleEnv [failingPage, failingPage]) 7 exampleStorage) 7)
     = Some (Some ''No data could be extracted from any page'') \<and>
   map_option status (documents (processDocument imageEnv 9 imageStorage) 9) = Some ''failed'' \<and>
   map_option errorMessage (documents (processDocument imageEnv 9 imageStorage) 9) =
     Some (Some ''Failed to extract data: 429 rate limit'')"
  using fails_only_if_every_page_fails[OF example_run_facts(1) example_run_facts(2) example_run_facts(3)]
    fails_only_if_every_page_fails[OF example_run_facts(1) example_run_facts(2) example_run_facts(4)]
    fails_only_if_every_page_fails[OF image_run_facts]
    example_run_results image_run_results
  by simp

lemma missing_file_throws:
  "tryBlock missingFileEnv (fst (beginRun (startedAt missingFileEnv) 7 exampleStorage))
     = Inl (ErrorObj ''ENOENT: no such file'')"
  by code_simp

theorem failure_write_frame_witness:
  "documents (processDocument missingFileEnv 7 exampleStorage) 7 =
     Some (exampleDocument\<lparr>status := ''failed'', errorMessage := Some ''ENOENT: no such file''\<rparr>)"
  using failure_write_frame[OF example_run_facts(1) missing_file_throws]
  by (simp add: messageOr_def)


lemma first_success_stored:
  "documents (snd (updateDocument 5000 7 exampleSuccess exampleStorage)) 7 =
     Some (exampleDocument
       \<lparr>status := ''processed'',
        extractedData := Some (combineData [examplePage ''cif'' ''C-9'' 90]),
        processingTime := Some 350,
        docConfidence := Some (avgConfidence (combineData [examplePage ''cif'' ''C-9'' 90])),
        errorMessage := None, processedAt := Some 5000\<rparr>)"
  by (simp add: updateDocument_Some[OF example_run_facts(1)] exampleSuccess_def
      updated_successUpdate exampleEnv_def exampleDocument_def)

theorem update_merges_and_dates_once_witness:
  "updateDocument 5000 7 exampleSuccess exampleStorage =
     (Some (exampleDocument
        \<lparr>status := ''processed'',
         extractedData := Some (combineData [examplePage ''cif'' ''C-9'' 90]),
         processingTime := Some 350,
         docConfidence := Some (avgConfidence (combineData [examplePage ''cif'' ''C-9'' 90])),
         errorMessage := None, processedAt := Some 5000\<rparr>),
      exampleStorage\<lparr>documents := (documents exampleStorage)
        (7 \<mapsto> exampleDocument
           \<lparr>status := ''processed'',
            extractedData := Some (combineData [examplePage ''cif'' ''C-9'' 90]),
            processingTime := Some 350,
            docConfidence := Some (avgConfidence (combineData [examplePage ''cif'' ''C-9'' 90])),
            errorMessage := None, processedAt := Some 5000\<rparr>)\<rparr>) \<and>
   map_option processedAt
     (fst (updateDocument 9000 7 (statusUpdate ''processed'')
        (snd (updateDocument 5000 7 exampleSuccess exampleStorage)))) = Some (Some 5000) \<and>
   map_option processedAt
     (documents
        (updateMany [(9000, statusUpdate ''processed''), (9500, retryUpdate)] 7
           (snd (updateDocument 5000 7 exampleSuccess exampleStorage))) 7) =
     Some (Some 5000)"
proof -
  note first = update_merges_and_dates_once[OF example_run_facts(1),
      where now = 5000 and updates = exampleSuccess and t = 0 and v = None and us = "[]"]
  note second = update_merges_and_dates_once[OF first_success_stored,
      where now = 9000 and updates = "statusUpdate ''processed''" and t = 5000 and v = None
        and us = "[(9000, statusUpdate ''processed''), (9500, retryUpdate)]"]
  have a: "updateDocument 5000 7 exampleSuccess exampleStorage =
     (Some (exampleDocument
        \<lparr>status := ''processed'',
         extractedData := Some (combineData [examplePage ''cif'' ''C-9'' 90]),
         processingTime := Some 350,
         docConfidence := Some (avgConfidence (combineData [examplePage ''cif'' ''C-9'' 90])),
         errorMessage := None, processedAt := Some 5000\<rparr>),
      exampleStorage\<lparr>documents := (documents exampleStorage)
        (7 \<mapsto> exampleDocument
           \<lparr>status := ''processed'',
            extractedData := Some (combineData [examplePage ''cif'' ''C-9'' 90]),
            processingTime := Some 350,
            docConfidence := Some (avgConfidence (combineData [examplePage ''cif'' ''C-9'' 90])),
            errorMessage := None, processedAt := Some 5000\<rparr>)\<rparr>)"
    using first[THEN conjunct1]
    by (simp add: Let_def exampleSuccess_def successUpdate_def noUpdates_def exampleEnv_def
        exampleDocument_def)
  have b: "map_option processedAt
     (fst (updateDocument 9000 7 (statusUpdate ''processed'')
        (snd (updateDocument 5000 7 exampleSuccess exampleStorage)))) = Some (Some 5000)"
    using second[THEN conjunct2, THEN conjunct1]
    by (simp add: statusUpdate_def noUpdates_def)
  have c: "map_option processedAt
     (documents
        (updateMany [(9000, statusUpdate ''processed''), (9500, retryUpdate)] 7
           (snd (updateDocument 5000 7 exampleSuccess exampleStorage))) 7) =
     Some (Some 5000)"
    using second[THEN conjunct2, THEN conjunct2, THEN conjunct2, THEN conjunct2]
    by (simp add: statusUpdate_def retryUpdate_def noUpdates_def)
  from a b c show ?thesis by (intro conjI)
qed

section \<open>The invariant of the server\<close>

lemma phaseStatus_simps [simp]:
  "phaseStatus Spawned = ''queued''" "phaseStatus (Running f) = ''processing''"
  by (simp_all add: phaseStatus_def)





















section \<open>The extraction client\<close>

lemma xField_cleaned:
  "k \<in> set FIELDS \<Longrightarrow> xField k (cleaned result) = orUndefined (getProp result k)"
  by (auto simp: FIELDS_def xField_def cleaned_def)

lemma fieldOk_orUndefined: "stringOrFalsy v \<Longrightarrow> fieldOk (orUndefined v)"
  by (auto simp: stringOrFalsy_def fieldOk_def orUndefined_def split: option.splits json.splits)

lemma list_all_arrayOrEmpty: "stringsOrNoArray v \<Longrightarrow> list_all isStr (arrayOrEmpty v)"
  by (auto simp: stringsOrNoArray_def arrayOrEmpty_def split: option.splits json.splits)

lemma confidenceOk_orEmptyObject: "numbersOrFalsy v \<Longrightarrow> confidenceOk (orEmptyObject v)"
  by (auto simp: numbersOrFalsy_def confidenceOk_def orEmptyObject_def split: option.splits json.splits)

lemma wellFormed_cleaned: "typedPayload result \<Longrightarrow> wellFormed (cleaned result)"
  by (simp add: typedPayload_def wellFormed_def cleaned_def FIELDS_def fieldOk_orUndefined
      list_all_arrayOrEmpty confidenceOk_orEmptyObject)

lemma extract_returns:
  "result \<noteq> JNull \<Longrightarrow> extractDataFromImage (CallReturns (Text (Inr result))) = Inr (cleaned result)"
  by (cases result) (simp_all add: extractDataFromImage_def parsed_def)

text \<open>
  C6, as amended. When the content parses to a value other than \<open>null\<close> the client
  returns: a field that is missing or falsy becomes absent and a non-empty string is
  kept; each list is the array given, or empty when no array is given; \<open>confidence\<close> is
  empty when missing or falsy, and an object of numbers is kept; the result is
  well-formed when the payload keeps to the format asked for. Empty content is read as
  \<open>{}\<close>. The client raises \<open>Failed to extract data: \<close> followed by the cause when the
  call throws, and also when \<open>JSON.parse\<close> throws and when the content parses to \<open>null\<close>.
\<close>
theorem client_cleans_parsed_payload:
  assumes "result \<noteq> JNull" and "k \<in> set FIELDS"
  shows "extractDataFromImage (CallReturns (Text (Inr result))) = Inr (cleaned result) \<and>
         (getProp result k = None \<or> (\<exists>v. getProp result k = Some v \<and> \<not> truthyJ v) \<longrightarrow>
            xField k (cleaned result) = None) \<and>
         (\<forall>s. getProp result k = Some (JStr s) \<and> s \<noteq> [] \<longrightarrow>
            xField k (cleaned result) = Some (JStr s)) \<and>
         x_fieldsFound (cleaned result) =
           (case getProp result ''fieldsFound'' of Some (JArr xs) \<Rightarrow> xs | _ \<Rightarrow> []) \<and>
         x_fieldsNotFound (cleaned result) =
           (case getProp result ''fieldsNotFound'' of Some (JArr xs) \<Rightarrow> xs | _ \<Rightarrow> []) \<and>
         (getProp result ''confidence'' = None \<or>
          (\<exists>v. getProp result ''confidence'' = Some v \<and> \<not> truthyJ v) \<longrightarrow>
            x_confidence (cleaned result) = JObj []) \<and>
         (\<forall>kvs. getProp result ''confidence'' = Some (JObj kvs) \<and>
                list_all (\<lambda>kv. isNum (snd kv)) kvs \<longrightarrow>
            x_confidence (cleaned result) = JObj kvs) \<and>
         (typedPayload result \<longrightarrow> wellFormed (cleaned result)) \<and>
         extractDataFromImage (CallReturns NoContent) = Inr (cleaned (JObj [])) \<and>
         extractDataFromImage (CallThrows e) = Inl (extractionError e) \<and>
         extractDataFromImage (CallReturns (Text (Inl e))) = Inl (extractionError e) \<and>
         extractDataFromImage (CallReturns (Text (Inr JNull))) =
           Inl (ErrorObj
             ''Failed to extract data: Cannot read properties of null (reading 'cif')'') \<and>
         extractionError e =
           ErrorObj (''Failed to extract data: '' @
             (case e of ErrorObj m \<Rightarrow> m | OtherValue \<Rightarrow> ''Unknown error''))"
proof -
  have 1: "extractDataFromImage (CallReturns (Text (Inr result))) = Inr (cleaned result)"
    by (rule extract_returns[OF assms(1)])
  have 2: "getProp result k = None \<or> (\<exists>v. getProp result k = Some v \<and> \<not> truthyJ v) \<longrightarrow>
            xField k (cleaned result) = None"
    by (auto simp: xField_cleaned[OF assms(2)] orUndefined_def)
  have 3: "\<forall>s. getProp result k = Some (JStr s) \<and> s \<noteq> [] \<longrightarrow>
            xField k (cleaned result) = Some (JStr s)"
    by (auto simp: xField_cleaned[OF assms(2)] orUndefined_def)
  have 4: "x_fieldsFound (cleaned result) =
           (case getProp result ''fieldsFound'' of Some (JArr xs) \<Rightarrow> xs | _ \<Rightarrow> [])"
    "x_fieldsNotFound (cleaned result) =
           (case getProp result ''fieldsNotFound'' of Some (JArr xs) \<Rightarrow> xs | _ \<Rightarrow> [])"
    by (simp_all add: cleaned_def arrayOrEmpty_def)
  have 5: "getProp result ''confidence'' = None \<or>
          (\<exists>v. getProp result ''confidence'' = Some v \<and> \<not> truthyJ v) \<longrightarrow>
            x_confidence (cleaned result) = JObj []"
    "\<forall>kvs. getProp result ''confidence'' = Some (JObj kvs) \<and>
            list_all (\<lambda>kv. isNum (snd kv)) kvs \<longrightarrow>
            x_confidence (cleaned result) = JObj kvs"
    by (auto simp: cleaned_def orEmptyObject_def)
  have 6: "extractDataFromImage (CallReturns NoContent) = Inr (cleaned (JObj []))"
    "extractDataFromImage (CallThrows e) = Inl (extractionError e)"
    "extractDataFromImage (CallReturns (Text (Inl e))) = Inl (extractionError e)"
    by (simp_all add: extractDataFromImage_def parsed_def)
  have 7: "extractDataFromImage (CallReturns (Text (Inr JNull))) =
           Inl (ErrorObj
             ''Failed to extract data: Cannot read properties of null (reading 'cif')'')"
    by (simp add: extractDataFromImage_def parsed_def extractionError_def nullTypeError_def
        messageOr_def)
  have 8: "extractionError e =
           ErrorObj (''Failed to extract data: '' @
             (case e of ErrorObj m \<Rightarrow> m | OtherValue \<Rightarrow> ''Unknown error''))"
    by (simp add: extractionError_def messageOr_def)
  from 1 2 3 4 5 6 7 8 wellFormed_cleaned[of result] show ?thesis by blast
qed

text \<open>
  As stated, C6 fails: the call returns, the content is no JSON text, and the client
  raises.
\<close>

theorem unparseable_content_raises:
  "extractDataFromImage (CallReturns truncatedContent) =
     Inl (ErrorObj ''Failed to extract data: Unexpected end of JSON input'')"
  by (simp add: extractDataFromImage_def truncatedContent_def parsed_def extractionError_def
      messageOr_def)

text \<open>
  A truthy value that is no string is kept as it is, so the result is not well-formed
  although its TypeScript type says so: the fields are checked for truthiness only,
  where the lists are checked with \<open>Array.isArray\<close>.
\<close>

lemma number_field_kept:
  "extractDataFromImage (CallReturns (Text (Inr numberPayload))) = Inr (cleaned numberPayload)"
  "x_cif (cleaned numberPayload) = Some (JNum 123)"
  "\<not> wellFormed (cleaned numberPayload)"
  by (simp_all add: extractDataFromImage_def parsed_def numberPayload_def cleaned_def
      orUndefined_def wellFormed_def fieldOk_def)

lemma typedExample_facts:
  "typedExample \<noteq> JNull" "''cif'' \<in> set FIELDS" "typedPayload typedExample"
  "getProp typedExample ''cif'' = Some (JStr ''C-9'')"
  by (simp_all add: typedExample_def FIELDS_def typedPayload_def stringOrFalsy_def
      stringsOrNoArray_def numbersOrFalsy_def isNum_def)

theorem client_cleans_parsed_payload_witness:
  "extractDataFromImage (CallReturns (Text (Inr typedExample))) = Inr (cleaned typedExample) \<and>
   xField ''cif'' (cleaned typedExample) = Some (JStr ''C-9'') \<and>
   x_fieldsFound (cleaned typedExample) = [] \<and>
   x_confidence (cleaned typedExample) = JObj [(''cif'', JNum 95)] \<and>
   wellFormed (cleaned typedExample) \<and>
   extractDataFromImage (CallReturns (Text (Inr JNull))) =
     Inl (ErrorObj ''Failed to extract data: Cannot read properties of null (reading 'cif')'')"
  using client_cleans_parsed_payload[OF typedExample_facts(1,2)] typedExample_facts(3,4)
  by (simp add: typedExample_def isNum_def)


end
